theory Spec2Isabelle
  imports Main
begin

section \<open>Data model of \<open>st1_sqlalchemy\<close>\<close>

text \<open>
  The module has three classes: \<open>DatabaseServer\<close> (one server, with a cache from database
  name to an engine and a session factory), \<open>DatabaseManager\<close> (servers keyed by host, with
  a default host) and \<open>DatabaseContext\<close> (an asynchronous context manager over the session
  factories resolved from a list of references).

  Exceptions are values. The first four constructors are what the module's own statements
  raise; \<open>ExternalError\<close> stands for anything raised inside SQLAlchemy or asgiref. The
  module defines no exception class of its own: \<open>ConfigurationError\<close>, \<open>NotFoundError\<close>
  and \<open>CloseError\<close> are the names the specification uses, kept here so that a statement
  can say which error a result is not.
\<close>

datatype exn =
    AttributeError string
  | KeyError string
  | IndexError
  | ExternalError nat
  | ConfigurationError
  | NotFoundError
  | CloseError "exn list"

text \<open>
  The three creation routines of \<open>DatabaseServer\<close>: \<open>_create_mssql\<close>,
  \<open>_create_postgres\<close>, \<open>_create_async_postgres\<close>. The constructor selects one with
  \<open>getattr(self, f'_create_{engine}')\<close>.
\<close>

datatype creator = CreateMssql | CreatePostgres | CreateAsyncPostgres

text \<open>The arguments of \<open>URL.create\<close> as the creation routines pass them.\<close>

record url =
  url_cls :: "string option"
  url_drivername :: string
  url_username :: string
  url_password :: string
  url_host :: string
  url_port :: int
  url_database :: "string option"

datatype engine_cls = EngineCls | AsyncEngineCls

text \<open>
  A connection handle. \<open>engine_id\<close> is its identity: the number of handles that existed
  when it was created.
\<close>

record engine =
  engine_id :: nat
  engine_class :: engine_cls
  engine_url :: url

text \<open>
  The class handed to \<open>sessionmaker\<close> as its second argument. \<open>AsyncSessionC\<close> is
  imported by the module and named in its annotations.
\<close>

datatype session_cls = SessionC | AsyncSessionC | AsyncEngineC

record sessionmaker =
  sm_bind :: engine
  sm_class :: session_cls
  sm_expire_on_commit :: bool

record session =
  session_id :: nat
  session_class :: session_cls
  session_bind :: engine

text \<open>The two release statements of \<open>__aexit__\<close>.\<close>

datatype release = AwaitClose | SyncToAsyncClose

text \<open>
  The observable effects: every engine created, every session instantiated, and every
  release statement executed with what it raised (\<open>None\<close> when it returned).
\<close>

record world =
  engines_created :: "engine list"
  opened :: "session list"
  close_log :: "(session \<times> release \<times> exn option) list"

text \<open>
  The external collaborators, as parameters: whether creating an engine for a URL raises,
  whether the \<open>n\<close>-th instantiation of a session raises, and whether a release statement
  raises for a session. \<open>sessionmaker(...)\<close> itself is taken not to raise.

  The functions of the registry and the manager return \<open>Inl\<close> of the exception or
  \<open>Inr\<close> of the result with the new state. \<open>__aenter__\<close> and \<open>__aexit__\<close> return the
  world also when they raise, since what was opened or closed before the exception is
  what the statements about them are about.
\<close>

record env =
  engine_raises :: "creator \<Rightarrow> url \<Rightarrow> exn option"
  open_raises :: "nat \<Rightarrow> sessionmaker \<Rightarrow> exn option"
  close_raises :: "release \<Rightarrow> session \<Rightarrow> exn option"

record db_server =
  host :: string
  port :: int
  username :: string
  password :: string
  create_engine_attr :: creator
  databases :: "string option \<rightharpoonup> engine \<times> sessionmaker"
  default_database :: "string option"

record db_manager =
  database_servers :: "string \<rightharpoonup> db_server"
  default_server :: "string option"

text \<open>
  Modelled from the spec: the type \<open>DBR\<close> of \<open>st1_sqlalchemy.types\<close> is not among the
  sources. A Database Reference is either empty, a single token, or a tuple of names; the
  constructor of \<open>DatabaseContext\<close> only asks whether a reference is a tuple and how long
  it is.
\<close>

datatype dbr = RefNone | Token string | Tuple "string option list"

text \<open>
  The argument \<open>use\<close>, annotated \<open>Iterable[DBR] | DBR\<close> with default \<open>None\<close>: absent, a
  list of references, or one reference passed bare.
\<close>

datatype use_arg = UseNone | UseIter "dbr list" | UseRef dbr

record db_context =
  session_makers :: "sessionmaker list"
  sessions :: "session list option"

datatype entered = One session | Many "session list"

section \<open>Python truth values\<close>

text \<open>\<open>not x\<close> for an optional string: true of \<open>None\<close> and of the empty string.\<close>

fun falsy :: "string option \<Rightarrow> bool" where
  "falsy None = True"
| "falsy (Some s) = (s = [])"

fun use_falsy :: "use_arg \<Rightarrow> bool" where
  "use_falsy UseNone = True"
| "use_falsy (UseIter rs) = (rs = [])"
| "use_falsy (UseRef RefNone) = True"
| "use_falsy (UseRef (Token s)) = (s = [])"
| "use_falsy (UseRef (Tuple xs)) = (xs = [])"

text \<open>
  What \<open>for ref in use\<close> yields: the elements of a list; for a bare string its
  characters, each a string; for a bare tuple its elements.
\<close>

fun atom_ref :: "string option \<Rightarrow> dbr" where
  "atom_ref None = RefNone"
| "atom_ref (Some s) = Token s"

fun use_items :: "use_arg \<Rightarrow> dbr list" where
  "use_items UseNone = []"
| "use_items (UseIter rs) = rs"
| "use_items (UseRef RefNone) = []"
| "use_items (UseRef (Token s)) = map (\<lambda>c. Token [c]) s"
| "use_items (UseRef (Tuple xs)) = map atom_ref xs"

section \<open>\<open>DatabaseServer\<close>\<close>

text \<open>
  \<open>getattr(self, f'_create_{engine}')\<close>: the attributes of a \<open>DatabaseServer\<close> whose name
  starts with \<open>_create_\<close> are the three creation routines; any other name raises
  \<open>AttributeError\<close>.
\<close>

definition lookup_creator :: "string \<Rightarrow> exn + creator" where
  "lookup_creator engine =
     (if engine = ''mssql'' then Inr CreateMssql
      else if engine = ''postgres'' then Inr CreatePostgres
      else if engine = ''async_postgres'' then Inr CreateAsyncPostgres
      else Inl (AttributeError (''_create_'' @ engine)))"

fun creator_url :: "creator \<Rightarrow> db_server \<Rightarrow> string option \<Rightarrow> url" where
  "creator_url CreateMssql s database =
     \<lparr>url_cls = Some ''mssql+pyodbc'', url_drivername = ''ODBC Driver 17 for SQL Server'',
      url_username = username s, url_password = password s, url_host = host s,
      url_port = port s, url_database = database\<rparr>"
| "creator_url CreatePostgres s database =
     \<lparr>url_cls = None, url_drivername = ''postgresql'',
      url_username = username s, url_password = password s, url_host = host s,
      url_port = port s, url_database = database\<rparr>"
| "creator_url CreateAsyncPostgres s database =
     \<lparr>url_cls = None, url_drivername = ''postgresql+asyncpg'',
      url_username = username s, url_password = password s, url_host = host s,
      url_port = port s, url_database = database\<rparr>"

text \<open>
  \<open>create_engine\<close> returns an \<open>Engine\<close>, \<open>create_async_engine\<close> an \<open>AsyncEngine\<close>.
\<close>

fun creator_class :: "creator \<Rightarrow> engine_cls" where
  "creator_class CreateMssql = EngineCls"
| "creator_class CreatePostgres = EngineCls"
| "creator_class CreateAsyncPostgres = AsyncEngineCls"

text \<open>\<open>self._create_engine(database)\<close>.\<close>

definition call_create_engine ::
  "env \<Rightarrow> db_server \<Rightarrow> string option \<Rightarrow> world \<Rightarrow> exn + (engine \<times> world)" where
  "call_create_engine ev s database w =
     (let c = create_engine_attr s; u = creator_url c s database
      in case engine_raises ev c u of
           Some x \<Rightarrow> Inl x
         | None \<Rightarrow>
             (let e = \<lparr>engine_id = length (engines_created w),
                       engine_class = creator_class c, engine_url = u\<rparr>
              in Inr (e, w\<lparr>engines_created := engines_created w @ [e]\<rparr>)))"

text \<open>
  \<open>_create\<close>: the session class is \<open>AsyncEngine\<close> when the engine is an \<open>AsyncEngine\<close>,
  otherwise \<open>Session\<close>; the pair is stored under the database name.
\<close>

definition DatabaseServer_create ::
  "env \<Rightarrow> db_server \<Rightarrow> string option \<Rightarrow> world
     \<Rightarrow> exn + ((engine \<times> sessionmaker) \<times> db_server \<times> world)" where
  "DatabaseServer_create ev s database w =
     (case call_create_engine ev s database w of
        Inl x \<Rightarrow> Inl x
      | Inr (e, w') \<Rightarrow>
          (let session_cls = (if engine_class e = AsyncEngineCls then AsyncEngineC else SessionC);
               session_maker = \<lparr>sm_bind = e, sm_class = session_cls,
                                sm_expire_on_commit = False\<rparr>
           in Inr ((e, session_maker),
                   s\<lparr>databases := (databases s)(database \<mapsto> (e, session_maker))\<rparr>, w')))"

definition DatabaseServer_get_or_create ::
  "env \<Rightarrow> db_server \<Rightarrow> string option \<Rightarrow> world
     \<Rightarrow> exn + ((engine \<times> sessionmaker) \<times> db_server \<times> world)" where
  "DatabaseServer_get_or_create ev s database w =
     (case databases s database of
        None \<Rightarrow> DatabaseServer_create ev s database w
      | Some p \<Rightarrow> Inr (p, s, w))"

definition get_session_maker ::
  "env \<Rightarrow> db_server \<Rightarrow> string option \<Rightarrow> world
     \<Rightarrow> exn + (sessionmaker \<times> db_server \<times> world)" where
  "get_session_maker ev s database w =
     (let database = (if falsy database then default_database s else database)
      in case DatabaseServer_get_or_create ev s database w of
           Inl x \<Rightarrow> Inl x
         | Inr ((_, session_maker), s', w') \<Rightarrow> Inr (session_maker, s', w'))"

text \<open>
  \<open>DatabaseServer.__init__\<close>: the creation routine is looked up first; the cache starts
  empty; a truthy default is created at once.
\<close>

definition DatabaseServer_init ::
  "env \<Rightarrow> string \<Rightarrow> string \<Rightarrow> string \<Rightarrow> int \<Rightarrow> string \<Rightarrow> string option \<Rightarrow> world
     \<Rightarrow> exn + (db_server \<times> world)" where
  "DatabaseServer_init ev h user pw p engine dflt w =
     (case lookup_creator engine of
        Inl x \<Rightarrow> Inl x
      | Inr c \<Rightarrow>
          (let s = \<lparr>host = h, port = p, username = user, password = pw,
                    create_engine_attr = c, databases = Map.empty,
                    default_database = dflt\<rparr>
           in if \<not> falsy dflt
              then (case DatabaseServer_get_or_create ev s dflt w of
                      Inl x \<Rightarrow> Inl x
                    | Inr (_, s', w') \<Rightarrow> Inr (s', w'))
              else Inr (s, w)))"

section \<open>\<open>DatabaseManager\<close>\<close>

text \<open>
  \<open>add\<close> stores each server under its own host, later ones replacing earlier ones.
  \<open>__init__\<close> sets \<open>default_server\<close> to the first server's host, and leaves the attribute
  unset (\<open>None\<close> here) when no server is given.
\<close>

definition add :: "db_manager \<Rightarrow> db_server list \<Rightarrow> db_manager" where
  "add m db_servers =
     fold (\<lambda>db_server m'.
             m'\<lparr>database_servers := (database_servers m')(host db_server \<mapsto> db_server)\<rparr>)
          db_servers m"

definition DatabaseManager_init :: "db_server list \<Rightarrow> db_manager" where
  "DatabaseManager_init db_servers =
     add \<lparr>database_servers = Map.empty,
          default_server = (case db_servers of [] \<Rightarrow> None | s # _ \<Rightarrow> Some (host s))\<rparr>
         db_servers"

text \<open>
  \<open>get\<close>: the dictionary key is the default host when \<open>host\<close> is falsy (reading the unset
  attribute raises \<open>AttributeError\<close>), otherwise \<open>host\<close>; a missing key raises
  \<open>KeyError\<close>.
\<close>

definition default_key :: "db_manager \<Rightarrow> exn + string" where
  "default_key m =
     (case default_server m of
        None \<Rightarrow> Inl (AttributeError ''default_server'')
      | Some d \<Rightarrow> Inr d)"

definition get_key :: "db_manager \<Rightarrow> string option \<Rightarrow> exn + string" where
  "get_key m h =
     (case h of
        None \<Rightarrow> default_key m
      | Some k \<Rightarrow> (if falsy (Some k) then default_key m else Inr k))"

definition get :: "db_manager \<Rightarrow> string option \<Rightarrow> exn + db_server" where
  "get m h =
     (case get_key m h of
        Inl x \<Rightarrow> Inl x
      | Inr k \<Rightarrow> (case database_servers m k of None \<Rightarrow> Inl (KeyError k) | Some s \<Rightarrow> Inr s))"

text \<open>
  The expression \<open>manager.get(host).get_session_maker(database)\<close> of
  \<open>DatabaseContext.__init__\<close>. The server is an object held by the manager's dictionary,
  so what \<open>get_session_maker\<close> does to its cache is seen under the key it was found at.
\<close>

definition manager_session_maker ::
  "env \<Rightarrow> db_manager \<Rightarrow> string option \<Rightarrow> string option \<Rightarrow> world
     \<Rightarrow> exn + (sessionmaker \<times> db_manager \<times> world)" where
  "manager_session_maker ev m h database w =
     (case get_key m h of
        Inl x \<Rightarrow> Inl x
      | Inr k \<Rightarrow>
          (case get m h of
             Inl x \<Rightarrow> Inl x
           | Inr s \<Rightarrow>
               (case get_session_maker ev s database w of
                  Inl x \<Rightarrow> Inl x
                | Inr (session_maker, s', w') \<Rightarrow>
                    Inr (session_maker,
                         m\<lparr>database_servers := (database_servers m)(k \<mapsto> s')\<rparr>, w'))))"

section \<open>\<open>DatabaseContext\<close>\<close>

text \<open>
  The body of the loop over \<open>use\<close>: \<open>host\<close> and \<open>database\<close> start as \<open>None\<close>; a tuple of
  length two gives both; any other tuple gives \<open>ref[0]\<close> as host (\<open>IndexError\<close> on the
  empty tuple); a reference that is not a tuple gives neither.
\<close>

fun ref_target :: "dbr \<Rightarrow> exn + (string option \<times> string option)" where
  "ref_target (Tuple [a, b]) = Inr (a, b)"
| "ref_target (Tuple []) = Inl IndexError"
| "ref_target (Tuple (a # _)) = Inr (a, None)"
| "ref_target RefNone = Inr (None, None)"
| "ref_target (Token _) = Inr (None, None)"

fun resolve_all ::
  "env \<Rightarrow> db_manager \<Rightarrow> dbr list \<Rightarrow> world
     \<Rightarrow> exn + (sessionmaker list \<times> db_manager \<times> world)" where
  "resolve_all ev m [] w = Inr ([], m, w)"
| "resolve_all ev m (r # rs) w =
     (case ref_target r of
        Inl x \<Rightarrow> Inl x
      | Inr (h, database) \<Rightarrow>
          (case manager_session_maker ev m h database w of
             Inl x \<Rightarrow> Inl x
           | Inr (sm, m', w') \<Rightarrow>
               (case resolve_all ev m' rs w' of
                  Inl x \<Rightarrow> Inl x
                | Inr (sms, m'', w'') \<Rightarrow> Inr (sm # sms, m'', w''))))"

definition DatabaseContext_init ::
  "env \<Rightarrow> db_manager \<Rightarrow> use_arg \<Rightarrow> world \<Rightarrow> exn + (db_context \<times> db_manager \<times> world)" where
  "DatabaseContext_init ev m use w =
     (case (if use_falsy use
            then (case manager_session_maker ev m None None w of
                    Inl x \<Rightarrow> Inl x
                  | Inr (sm, m', w') \<Rightarrow> Inr ([sm], m', w'))
            else resolve_all ev m (use_items use) w) of
        Inl x \<Rightarrow> Inl x
      | Inr (sms, m', w') \<Rightarrow> Inr (\<lparr>session_makers = sms, sessions = None\<rparr>, m', w'))"

text \<open>\<open>db_context\<close> of the manager.\<close>

definition db_context ::
  "env \<Rightarrow> db_manager \<Rightarrow> use_arg \<Rightarrow> world \<Rightarrow> exn + (db_context \<times> db_manager \<times> world)" where
  "db_context ev m use w = DatabaseContext_init ev m use w"

text \<open>
  \<open>session_maker()\<close>: an object of the factory's class, bound to the factory's engine,
  unless the call raises.
\<close>

definition instantiate :: "env \<Rightarrow> sessionmaker \<Rightarrow> world \<Rightarrow> (exn + session) \<times> world" where
  "instantiate ev sm w =
     (case open_raises ev (length (opened w)) sm of
        Some x \<Rightarrow> (Inl x, w)
      | None \<Rightarrow>
          (let s = \<lparr>session_id = length (opened w), session_class = sm_class sm,
                    session_bind = sm_bind sm\<rparr>
           in (Inr s, w\<lparr>opened := opened w @ [s]\<rparr>)))"

text \<open>
  \<open>tuple(session_maker() for session_maker in self.session_makers)\<close>: the factories are
  called in order; the first call that raises ends the generator.
\<close>

fun open_all :: "env \<Rightarrow> sessionmaker list \<Rightarrow> world \<Rightarrow> (exn + session list) \<times> world" where
  "open_all ev [] w = (Inr [], w)"
| "open_all ev (sm # sms) w =
     (case instantiate ev sm w of
        (Inl x, w') \<Rightarrow> (Inl x, w')
      | (Inr s, w') \<Rightarrow>
          (case open_all ev sms w' of
             (Inl x, w'') \<Rightarrow> (Inl x, w'')
           | (Inr ss, w'') \<Rightarrow> (Inr (s # ss), w'')))"

text \<open>
  \<open>__aenter__\<close>: \<open>self.sessions\<close> is assigned only when every call returned; one session
  is returned bare, any other number as the tuple.
\<close>

definition aenter :: "env \<Rightarrow> db_context \<Rightarrow> world \<Rightarrow> (exn + entered) \<times> db_context \<times> world" where
  "aenter ev ctx w =
     (case open_all ev (session_makers ctx) w of
        (Inl x, w') \<Rightarrow> (Inl x, ctx, w')
      | (Inr ss, w') \<Rightarrow>
          (Inr (case ss of [s] \<Rightarrow> One s | _ \<Rightarrow> Many ss), ctx\<lparr>sessions := Some ss\<rparr>, w'))"

text \<open>
  \<open>inspect.iscoroutinefunction\<close> is true of a function defined with \<open>async def\<close>. The
  objects it can be asked about here are an instance of a class and a function.
\<close>

datatype pyobject = Instance session_cls | Function bool

fun iscoroutinefunction :: "pyobject \<Rightarrow> bool" where
  "iscoroutinefunction (Instance _) = False"
| "iscoroutinefunction (Function is_async) = is_async"

text \<open>
  The loop of \<open>__aexit__\<close>: the test is applied to the session object itself; a release
  statement that raises ends the loop.
\<close>

definition release_of :: "session \<Rightarrow> release" where
  "release_of s =
     (if iscoroutinefunction (Instance (session_class s)) then AwaitClose else SyncToAsyncClose)"

fun close_all :: "env \<Rightarrow> session list \<Rightarrow> world \<Rightarrow> exn option \<times> world" where
  "close_all ev [] w = (None, w)"
| "close_all ev (s # ss) w =
     (let r = release_of s;
          outcome = close_raises ev r s;
          w' = w\<lparr>close_log := close_log w @ [(s, r, outcome)]\<rparr>
      in case outcome of
           Some x \<Rightarrow> (Some x, w')
         | None \<Rightarrow> close_all ev ss w')"

text \<open>\<open>__aexit__\<close>: nothing happens when \<open>self.sessions\<close> is \<open>None\<close> or empty.\<close>

definition aexit :: "env \<Rightarrow> db_context \<Rightarrow> world \<Rightarrow> exn option \<times> world" where
  "aexit ev ctx w =
     (case sessions ctx of
        None \<Rightarrow> (None, w)
      | Some ss \<Rightarrow> (if ss = [] then (None, w) else close_all ev ss w))"

section \<open>Concrete scenarios\<close>

text \<open>
  Collaborators that never raise, an empty world, and two registries as their constructors
  leave them: \<open>db-a\<close> (synchronous Postgres, default database \<open>orders\<close>) built first,
  then \<open>db-b\<close> (asynchronous Postgres, default database \<open>events\<close>).
\<close>

definition quiet_env :: env where
  "quiet_env = \<lparr>engine_raises = (\<lambda>_ _. None), open_raises = (\<lambda>_ _. None),
                 close_raises = (\<lambda>_ _. None)\<rparr>"

definition world0 :: world where
  "world0 = \<lparr>engines_created = [], opened = [], close_log = []\<rparr>"

definition engine_orders :: engine where
  "engine_orders =
     \<lparr>engine_id = 0, engine_class = EngineCls,
      engine_url = \<lparr>url_cls = None, url_drivername = ''postgresql'', url_username = ''app'',
                    url_password = ''secret'', url_host = ''db-a'', url_port = 5432,
                    url_database = Some ''orders''\<rparr>\<rparr>"

definition maker_orders :: sessionmaker where
  "maker_orders = \<lparr>sm_bind = engine_orders, sm_class = SessionC, sm_expire_on_commit = False\<rparr>"

definition server_a :: db_server where
  "server_a =
     \<lparr>host = ''db-a'', port = 5432, username = ''app'', password = ''secret'',
      create_engine_attr = CreatePostgres,
      databases = [Some ''orders'' \<mapsto> (engine_orders, maker_orders)],
      default_database = Some ''orders''\<rparr>"

definition world_a :: world where
  "world_a = \<lparr>engines_created = [engine_orders], opened = [], close_log = []\<rparr>"

definition engine_events :: engine where
  "engine_events =
     \<lparr>engine_id = 1, engine_class = AsyncEngineCls,
      engine_url = \<lparr>url_cls = None, url_drivername = ''postgresql+asyncpg'',
                    url_username = ''app'', url_password = ''secret'', url_host = ''db-b'',
                    url_port = 5432, url_database = Some ''events''\<rparr>\<rparr>"

definition maker_events :: sessionmaker where
  "maker_events =
     \<lparr>sm_bind = engine_events, sm_class = AsyncEngineC, sm_expire_on_commit = False\<rparr>"

definition server_b :: db_server where
  "server_b =
     \<lparr>host = ''db-b'', port = 5432, username = ''app'', password = ''secret'',
      create_engine_attr = CreateAsyncPostgres,
      databases = [Some ''events'' \<mapsto> (engine_events, maker_events)],
      default_database = Some ''events''\<rparr>"

definition world_ab :: world where
  "world_ab = \<lparr>engines_created = [engine_orders, engine_events], opened = [], close_log = []\<rparr>"

definition manager_ab :: db_manager where
  "manager_ab = DatabaseManager_init [server_a, server_b]"

text \<open>A session factory whose second call raises; a session whose release raises.\<close>

definition env_open_fails :: env where
  "env_open_fails =
     quiet_env\<lparr>open_raises := (\<lambda>n _. if n = 1 then Some (ExternalError 7) else None)\<rparr>"

definition env_close_fails :: env where
  "env_close_fails =
     quiet_env\<lparr>close_raises :=
       (\<lambda>_ s. if session_id s = 1 then Some (ExternalError 9) else None)\<rparr>"

text \<open>
  A registry with no default database, as its constructor leaves it, and what a request
  with no database name creates for it; a driver whose engine creation always raises; the
  object a factory of \<open>db-b\<close> instantiates.
\<close>

definition server_c :: db_server where
  "server_c =
     \<lparr>host = ''db-c'', port = 5432, username = ''app'', password = ''secret'',
      create_engine_attr = CreatePostgres, databases = Map.empty,
      default_database = None\<rparr>"

definition engine_unnamed :: engine where
  "engine_unnamed =
     \<lparr>engine_id = 0, engine_class = EngineCls,
      engine_url = \<lparr>url_cls = None, url_drivername = ''postgresql'', url_username = ''app'',
                    url_password = ''secret'', url_host = ''db-c'', url_port = 5432,
                    url_database = None\<rparr>\<rparr>"

definition maker_unnamed :: sessionmaker where
  "maker_unnamed = \<lparr>sm_bind = engine_unnamed, sm_class = SessionC, sm_expire_on_commit = False\<rparr>"

definition env_engine_fails :: env where
  "env_engine_fails = quiet_env\<lparr>engine_raises := (\<lambda>_ _. Some (ExternalError 3))\<rparr>"

definition session_events :: session where
  "session_events = \<lparr>session_id = 0, session_class = AsyncEngineC, session_bind = engine_events\<rparr>"

text \<open>
  Sessions as \<open>__aenter__\<close> creates them from the factories of \<open>db-a\<close> and \<open>db-b\<close>,
  a scope over three references to \<open>db-a\<close>, and a scope over one reference to each
  registry.
\<close>

definition session_0 :: session where
  "session_0 = \<lparr>session_id = 0, session_class = SessionC, session_bind = engine_orders\<rparr>"

definition session_1 :: session where
  "session_1 = \<lparr>session_id = 1, session_class = SessionC, session_bind = engine_orders\<rparr>"

definition session_2 :: session where
  "session_2 = \<lparr>session_id = 2, session_class = SessionC, session_bind = engine_orders\<rparr>"


definition ctx_three :: db_context where
  "ctx_three = \<lparr>session_makers = [maker_orders, maker_orders, maker_orders], sessions = None\<rparr>"



section \<open>The cache of a registry\<close>

text \<open>A hit returns the stored pair and changes nothing; a successful request leaves its
  pair stored under the requested name.\<close>

lemma get_or_create_hit:
  "databases s d = Some p \<Longrightarrow> DatabaseServer_get_or_create ev s d w = Inr (p, s, w)"
  by (simp add: DatabaseServer_get_or_create_def)

lemma create_stores:
  "DatabaseServer_create ev s d w = Inr (p, s', w') \<Longrightarrow> databases s' d = Some p"
  by (auto simp: DatabaseServer_create_def Let_def split: sum.splits)

lemma get_or_create_stores:
  "DatabaseServer_get_or_create ev s d w = Inr (p, s', w') \<Longrightarrow> databases s' d = Some p"
  by (auto simp: DatabaseServer_get_or_create_def create_stores split: option.splits)

lemma get_or_create_again:
  "DatabaseServer_get_or_create ev s d w = Inr (p, s', w')
     \<Longrightarrow> DatabaseServer_get_or_create ev s' d w' = Inr (p, s', w')"
  by (rule get_or_create_hit) (erule get_or_create_stores)

lemma create_default_database:
  "DatabaseServer_create ev s d w = Inr (p, s', w') \<Longrightarrow> default_database s' = default_database s"
  by (auto simp: DatabaseServer_create_def Let_def split: sum.splits)

lemma get_or_create_default_database:
  "DatabaseServer_get_or_create ev s d w = Inr (p, s', w')
     \<Longrightarrow> default_database s' = default_database s"
  by (auto simp: DatabaseServer_get_or_create_def create_default_database split: option.splits)

lemma get_session_maker_again:
  assumes "get_session_maker ev s d w = Inr (sm, s', w')"
  shows "get_session_maker ev s' d w' = Inr (sm, s', w')"
proof -
  let ?k = "if falsy d then default_database s else d"
  from assms obtain e where g: "DatabaseServer_get_or_create ev s ?k w = Inr ((e, sm), s', w')"
    by (auto simp: get_session_maker_def Let_def split: sum.splits)
  have "default_database s' = default_database s"
    using g by (rule get_or_create_default_database)
  moreover have "DatabaseServer_get_or_create ev s' ?k w' = Inr ((e, sm), s', w')"
    using g by (rule get_or_create_again)
  ultimately show ?thesis
    by (cases "falsy d") (simp_all add: get_session_maker_def)
qed

lemma get_or_create_keeps:
  assumes "DatabaseServer_get_or_create ev s d w = Inr (q, s', w')"
    and "databases s d0 = Some p"
  shows "databases s' d0 = Some p"
proof (cases "databases s d")
  case None
  with assms(2) have "d \<noteq> d0" by auto
  with assms None show ?thesis
    by (auto simp: DatabaseServer_get_or_create_def DatabaseServer_create_def Let_def
             split: sum.splits)
next
  case (Some r)
  with assms show ?thesis
    by (simp add: DatabaseServer_get_or_create_def)
qed

lemma get_session_maker_keeps:
  assumes "get_session_maker ev s d w = Inr (sm, s', w')"
    and "databases s d0 = Some p"
  shows "databases s' d0 = Some p"
proof -
  from assms(1) obtain e where
    "DatabaseServer_get_or_create ev s (if falsy d then default_database s else d) w
       = Inr ((e, sm), s', w')"
    by (auto simp: get_session_maker_def Let_def split: sum.splits)
  from get_or_create_keeps [OF this assms(2)] show ?thesis .
qed

lemma get_key_servers_upd [simp]:
  "get_key (m\<lparr>database_servers := x\<rparr>) h = get_key m h"
  by (cases h) (simp_all add: get_key_def default_key_def)

lemma manager_session_maker_again:
  assumes "manager_session_maker ev m h d w = Inr (sm, m', w')"
  shows "manager_session_maker ev m' h d w' = Inr (sm, m', w')"
proof -
  from assms obtain k where k: "get_key m h = Inr k"
    by (auto simp: manager_session_maker_def split: sum.splits)
  from assms k obtain s where s: "database_servers m k = Some s"
    by (auto simp: manager_session_maker_def get_def split: sum.splits option.splits)
  from assms k s obtain s' where
    g: "get_session_maker ev s d w = Inr (sm, s', w')" and
    m': "m' = m\<lparr>database_servers := (database_servers m)(k \<mapsto> s')\<rparr>"
    by (auto simp: manager_session_maker_def get_def split: sum.splits)
  have k': "get_key m' h = Inr k"
    using k by (simp add: m')
  have "get_session_maker ev s' d w' = Inr (sm, s', w')"
    using g by (rule get_session_maker_again)
  then show ?thesis
    using k k' by (simp add: manager_session_maker_def get_def m')
qed

section \<open>The scenarios evaluated\<close>

lemmas server_defs =
  DatabaseServer_init_def lookup_creator_def DatabaseServer_get_or_create_def
  DatabaseServer_create_def call_create_engine_def get_session_maker_def Let_def

lemma server_a_constructed:
  "DatabaseServer_init quiet_env ''db-a'' ''app'' ''secret'' 5432 ''postgres'' (Some ''orders'') world0
     = Inr (server_a, world_a)"
  by (simp add: server_defs quiet_env_def world0_def server_a_def world_a_def
                engine_orders_def maker_orders_def)

lemma server_b_constructed:
  "DatabaseServer_init quiet_env ''db-b'' ''app'' ''secret'' 5432 ''async_postgres''
       (Some ''events'') world_a
     = Inr (server_b, world_ab)"
  by (simp add: server_defs quiet_env_def world_a_def server_b_def world_ab_def
                engine_events_def maker_events_def)

lemma manager_ab_eq:
  "manager_ab = \<lparr>database_servers = [''db-a'' \<mapsto> server_a, ''db-b'' \<mapsto> server_b],
                  default_server = Some ''db-a''\<rparr>"
  by (simp add: manager_ab_def DatabaseManager_init_def add_def server_a_def server_b_def)

lemma manager_ab_fields:
  "database_servers manager_ab ''db-a'' = Some server_a"
  "database_servers manager_ab ''db-b'' = Some server_b"
  "default_server manager_ab = Some ''db-a''"
  by (simp_all add: manager_ab_eq)

lemma manager_upd_triv:
  "database_servers m k = Some s \<Longrightarrow> m\<lparr>database_servers := (database_servers m)(k \<mapsto> s)\<rparr> = m"
  by (simp add: map_upd_triv)

lemma get_session_maker_a:
  "get_session_maker ev server_a (Some ''orders'') w = Inr (maker_orders, server_a, w)"
  "get_session_maker ev server_a None w = Inr (maker_orders, server_a, w)"
  by (simp_all add: get_session_maker_def DatabaseServer_get_or_create_def server_a_def Let_def)

lemma get_session_maker_b:
  "get_session_maker ev server_b (Some ''events'') w = Inr (maker_events, server_b, w)"
  "get_session_maker ev server_b None w = Inr (maker_events, server_b, w)"
  by (simp_all add: get_session_maker_def DatabaseServer_get_or_create_def server_b_def Let_def)

lemma manager_ab_resolve:
  "manager_session_maker ev manager_ab None None w = Inr (maker_orders, manager_ab, w)"
  "manager_session_maker ev manager_ab (Some ''db-a'') (Some ''orders'') w
     = Inr (maker_orders, manager_ab, w)"
  "manager_session_maker ev manager_ab (Some ''db-a'') None w = Inr (maker_orders, manager_ab, w)"
  "manager_session_maker ev manager_ab (Some ''db-b'') None w = Inr (maker_events, manager_ab, w)"
  by (simp_all add: manager_session_maker_def get_def get_key_def default_key_def
                    manager_ab_fields get_session_maker_a get_session_maker_b manager_upd_triv)

section \<open>Claims about the registry\<close>

text \<open>
  C4. Requesting the session factory for a database name a second time returns the pair
  the first request left in the cache, with the registry and the world (hence the list of
  engines created) unchanged: no second connection handle is created. The same holds for
  \<open>_get_or_create\<close> and, through the manager, for the same (host, database) requested
  twice. A request for any name leaves every pair already cached where it was.
\<close>

theorem session_factory_cached:
  "(get_session_maker ev s d w = Inr (sm, s', w')
      \<longrightarrow> get_session_maker ev s' d w' = Inr (sm, s', w'))
   \<and> (DatabaseServer_get_or_create ev s d w = Inr (p, s1, w1)
      \<longrightarrow> DatabaseServer_get_or_create ev s1 d w1 = Inr (p, s1, w1))
   \<and> (manager_session_maker ev m h d w = Inr (sm2, m2, w2)
      \<longrightarrow> manager_session_maker ev m2 h d w2 = Inr (sm2, m2, w2))
   \<and> (get_session_maker ev s d3 w = Inr (sm3, s3, w3) \<longrightarrow> databases s d0 = Some p0
      \<longrightarrow> databases s3 d0 = Some p0)"
proof (intro conjI impI)
  assume "get_session_maker ev s d w = Inr (sm, s', w')"
  then show "get_session_maker ev s' d w' = Inr (sm, s', w')"
    by (rule get_session_maker_again)
next
  assume "DatabaseServer_get_or_create ev s d w = Inr (p, s1, w1)"
  then show "DatabaseServer_get_or_create ev s1 d w1 = Inr (p, s1, w1)"
    by (rule get_or_create_again)
next
  assume "manager_session_maker ev m h d w = Inr (sm2, m2, w2)"
  then show "manager_session_maker ev m2 h d w2 = Inr (sm2, m2, w2)"
    by (rule manager_session_maker_again)
next
  assume "get_session_maker ev s d3 w = Inr (sm3, s3, w3)" and "databases s d0 = Some p0"
  then show "databases s3 d0 = Some p0"
    by (rule get_session_maker_keeps)
qed

lemma bare_eval:
  "DatabaseServer_get_or_create quiet_env
      (server_a\<lparr>databases := Map.empty\<rparr>) (Some ''orders'') world0
     = Inr ((engine_orders, maker_orders), server_a, world_a)"
  by (simp add: server_defs quiet_env_def world0_def server_a_def world_a_def
                engine_orders_def maker_orders_def)

theorem session_factory_cached_witness:
  "get_session_maker quiet_env (server_a\<lparr>databases := Map.empty\<rparr>) (Some ''orders'') world0
     = Inr (maker_orders, server_a, world_a)
   \<and> get_session_maker quiet_env server_a (Some ''orders'') world_a
     = Inr (maker_orders, server_a, world_a)
   \<and> DatabaseServer_get_or_create quiet_env (server_a\<lparr>databases := Map.empty\<rparr>)
        (Some ''orders'') world0 = Inr ((engine_orders, maker_orders), server_a, world_a)
   \<and> DatabaseServer_get_or_create quiet_env server_a (Some ''orders'') world_a
     = Inr ((engine_orders, maker_orders), server_a, world_a)
   \<and> manager_session_maker quiet_env manager_ab (Some ''db-a'') (Some ''orders'') world_ab
     = Inr (maker_orders, manager_ab, world_ab)
   \<and> databases server_a (Some ''orders'') = Some (engine_orders, maker_orders)
   \<and> get_session_maker quiet_env server_a None world_a = Inr (maker_orders, server_a, world_a)"
proof -
  have 1: "get_session_maker quiet_env (server_a\<lparr>databases := Map.empty\<rparr>) (Some ''orders'') world0
     = Inr (maker_orders, server_a, world_a)"
    by (simp add: get_session_maker_def bare_eval)
  have 2: "manager_session_maker quiet_env manager_ab (Some ''db-a'') (Some ''orders'') world_ab
     = Inr (maker_orders, manager_ab, world_ab)"
    by (rule manager_ab_resolve)
  have 3: "databases server_a (Some ''orders'') = Some (engine_orders, maker_orders)"
    by (simp add: server_a_def)
  have 4: "get_session_maker quiet_env server_a None world_a
             = Inr (maker_orders, server_a, world_a)"
    by (rule get_session_maker_a)
  show ?thesis
    using 1 2 3 4 bare_eval
      session_factory_cached [of quiet_env "server_a\<lparr>databases := Map.empty\<rparr>" "Some ''orders''"
        world0 maker_orders server_a world_a "(engine_orders, maker_orders)" server_a world_a
        manager_ab "Some ''db-a''" maker_orders manager_ab world_ab]
      session_factory_cached [of quiet_env server_a None world_a maker_orders server_a world_a
        "(engine_orders, maker_orders)" server_a world_a
        manager_ab "Some ''db-a''" maker_orders manager_ab world_ab
        None maker_orders server_a world_a "Some ''orders''" "(engine_orders, maker_orders)"]
    by simp
qed

text \<open>
  C7 as stated fails on the error raised: for the engine name \<open>oracle\<close> the constructor
  raises \<open>AttributeError\<close>, not \<open>ConfigurationError\<close>.
\<close>

theorem unknown_engine_counterexample:
  "DatabaseServer_init quiet_env ''db-a'' ''app'' ''secret'' 1433 ''oracle'' None world0
     = Inl (AttributeError ''_create_oracle'')
   \<and> DatabaseServer_init quiet_env ''db-a'' ''app'' ''secret'' 1433 ''oracle'' None world0
     \<noteq> Inl ConfigurationError"
  by (simp add: DatabaseServer_init_def lookup_creator_def)

text \<open>
  C7, amended. An engine name that is none of \<open>mssql\<close>, \<open>postgres\<close>,
  \<open>async_postgres\<close> makes the constructor raise at once, whatever its other arguments:
  the error is the \<open>AttributeError\<close> of the failed attribute lookup (the module has no
  \<open>ConfigurationError\<close>), and no registry and no engine come into being.
\<close>

theorem unknown_engine_fails_at_construction:
  assumes "engine \<noteq> ''mssql''" and "engine \<noteq> ''postgres''" and "engine \<noteq> ''async_postgres''"
  shows "DatabaseServer_init ev h user pw p engine dflt w
           = Inl (AttributeError (''_create_'' @ engine))"
  using assms by (simp add: DatabaseServer_init_def lookup_creator_def)

theorem unknown_engine_fails_at_construction_witness:
  "DatabaseServer_init quiet_env ''db-a'' ''app'' ''secret'' 1433 ''oracle'' (Some ''orders'') world0
     = Inl (AttributeError ''_create_oracle'')"
  using unknown_engine_fails_at_construction [of "''oracle''" quiet_env "''db-a''" "''app''"
      "''secret''" 1433 "Some ''orders''" world0]
  by simp

lemma get_or_create_miss:
  "databases s d = None \<Longrightarrow>
   DatabaseServer_get_or_create ev s d w =
     (case engine_raises ev (create_engine_attr s) (creator_url (create_engine_attr s) s d) of
        Some x \<Rightarrow> Inl x
      | None \<Rightarrow>
          (let e = \<lparr>engine_id = length (engines_created w),
                    engine_class = creator_class (create_engine_attr s),
                    engine_url = creator_url (create_engine_attr s) s d\<rparr>;
               sm = \<lparr>sm_bind = e,
                     sm_class = (if creator_class (create_engine_attr s) = AsyncEngineCls
                                 then AsyncEngineC else SessionC),
                     sm_expire_on_commit = False\<rparr>
           in Inr ((e, sm), s\<lparr>databases := (databases s)(d \<mapsto> (e, sm))\<rparr>,
                   w\<lparr>engines_created := engines_created w @ [e]\<rparr>)))"
  by (simp add: DatabaseServer_get_or_create_def DatabaseServer_create_def
                call_create_engine_def Let_def split: option.splits)

lemma get_session_maker_key:
  "get_session_maker ev s d w =
     (case DatabaseServer_get_or_create ev s (if falsy d then default_database s else d) w of
        Inl x \<Rightarrow> Inl x
      | Inr ((e, sm), s', w') \<Rightarrow> Inr (sm, s', w'))"
  by (simp add: get_session_maker_def Let_def)

lemma server_c_constructed:
  "DatabaseServer_init quiet_env ''db-c'' ''app'' ''secret'' 5432 ''postgres'' None world0
     = Inr (server_c, world0)"
  by (simp add: DatabaseServer_init_def lookup_creator_def server_c_def)

lemma server_c_unnamed:
  "get_session_maker quiet_env server_c None world0
     = Inr (maker_unnamed,
            server_c\<lparr>databases := [None \<mapsto> (engine_unnamed, maker_unnamed)]\<rparr>,
            world0\<lparr>engines_created := [engine_unnamed]\<rparr>)"
  by (simp add: server_defs server_c_def quiet_env_def world0_def engine_unnamed_def
                maker_unnamed_def)

lemma server_c_engine_fails:
  "get_session_maker env_engine_fails server_c None world0 = Inl (ExternalError 3)"
  by (simp add: server_defs server_c_def env_engine_fails_def quiet_env_def)

text \<open>
  C8 as stated fails: a registry constructed with no default database answers a request
  with no database name by creating and caching an engine whose database is \<open>None\<close>.
\<close>

theorem no_default_counterexample:
  "DatabaseServer_init quiet_env ''db-c'' ''app'' ''secret'' 5432 ''postgres'' None world0
     = Inr (server_c, world0)
   \<and> default_database server_c = None
   \<and> get_session_maker quiet_env server_c None world0
     = Inr (maker_unnamed,
            server_c\<lparr>databases := [None \<mapsto> (engine_unnamed, maker_unnamed)]\<rparr>,
            world0\<lparr>engines_created := [engine_unnamed]\<rparr>)"
  using server_c_constructed server_c_unnamed by (simp add: server_c_def)

text \<open>
  C8, amended. A request with no database name goes on with the registry's
  \<open>default_database\<close> as the name, also when no default is configured (\<open>None\<close> or
  empty): no \<open>ConfigurationError\<close> is raised. Such a request fails only when the
  driver's engine creation for that name raises, with the driver's error; when the driver
  does not raise it returns a factory, cached under the absent name. When a default is
  configured the request is the request for the default.
\<close>

theorem no_default_proceeds:
  "(falsy (default_database s) \<longrightarrow> get_session_maker ev s None w = Inl x \<longrightarrow>
        engine_raises ev (create_engine_attr s)
          (creator_url (create_engine_attr s) s (default_database s)) = Some x)
   \<and> (falsy (default_database s) \<longrightarrow>
        engine_raises ev (create_engine_attr s)
          (creator_url (create_engine_attr s) s (default_database s)) = None \<longrightarrow>
        (\<exists>e sm s' w'. get_session_maker ev s None w = Inr (sm, s', w')
           \<and> databases s' (default_database s) = Some (e, sm)))
   \<and> (\<not> falsy (default_database s) \<longrightarrow>
        get_session_maker ev s None w = get_session_maker ev s (default_database s) w)"
proof (intro conjI impI)
  assume "get_session_maker ev s None w = Inl x"
  then show "engine_raises ev (create_engine_attr s)
          (creator_url (create_engine_attr s) s (default_database s)) = Some x"
  proof (cases "databases s (default_database s)")
    case None
    with \<open>get_session_maker ev s None w = Inl x\<close> show ?thesis
      by (auto simp: get_session_maker_key get_or_create_miss Let_def split: option.splits)
  next
    case (Some p)
    with \<open>get_session_maker ev s None w = Inl x\<close> show ?thesis
      by (cases p) (simp add: get_session_maker_key get_or_create_hit)
  qed
next
  assume q: "engine_raises ev (create_engine_attr s)
          (creator_url (create_engine_attr s) s (default_database s)) = None"
  show "\<exists>e sm s' w'. get_session_maker ev s None w = Inr (sm, s', w')
           \<and> databases s' (default_database s) = Some (e, sm)"
  proof (cases "databases s (default_database s)")
    case None
    then show ?thesis
      using q by (simp add: get_session_maker_key get_or_create_miss Let_def)
  next
    case (Some p)
    then show ?thesis
      by (cases p) (simp add: get_session_maker_key get_or_create_hit)
  qed
next
  assume "\<not> falsy (default_database s)"
  then show "get_session_maker ev s None w = get_session_maker ev s (default_database s) w"
    by (simp add: get_session_maker_key)
qed

theorem no_default_proceeds_witness:
  "falsy (default_database server_c)
   \<and> get_session_maker env_engine_fails server_c None world0 = Inl (ExternalError 3)
   \<and> engine_raises env_engine_fails (create_engine_attr server_c)
        (creator_url (create_engine_attr server_c) server_c (default_database server_c))
       = Some (ExternalError 3)
   \<and> engine_raises quiet_env (create_engine_attr server_c)
        (creator_url (create_engine_attr server_c) server_c (default_database server_c)) = None
   \<and> (\<exists>e sm s' w'. get_session_maker quiet_env server_c None world0 = Inr (sm, s', w')
           \<and> databases s' (default_database server_c) = Some (e, sm))
   \<and> \<not> falsy (default_database server_a)
   \<and> get_session_maker quiet_env server_a None world_a
       = get_session_maker quiet_env server_a (default_database server_a) world_a"
proof -
  have f: "falsy (default_database server_c)" by (simp add: server_c_def)
  have q: "engine_raises quiet_env (create_engine_attr server_c)
        (creator_url (create_engine_attr server_c) server_c (default_database server_c)) = None"
    by (simp add: quiet_env_def)
  have a: "\<not> falsy (default_database server_a)" by (simp add: server_a_def)
  show ?thesis
    using f q a server_c_engine_fails
      no_default_proceeds [of server_c env_engine_fails world0 "ExternalError 3"]
      no_default_proceeds [of server_c quiet_env world0 "ExternalError 3"]
      no_default_proceeds [of server_a quiet_env world_a "ExternalError 3"]
    by blast
qed

text \<open>
  C9 as stated fails: constructing \<open>db-a\<close> with the default database \<open>orders\<close> creates
  the engine for \<open>orders\<close> during construction.
\<close>

theorem eager_default_counterexample:
  "DatabaseServer_init quiet_env ''db-a'' ''app'' ''secret'' 5432 ''postgres'' (Some ''orders'') world0
     = Inr (server_a, world_a)
   \<and> engines_created world0 = []
   \<and> engines_created world_a = [engine_orders]
   \<and> databases server_a (Some ''orders'') = Some (engine_orders, maker_orders)"
  using server_a_constructed by (simp add: world0_def world_a_def server_a_def)

lemma init_no_default:
  assumes "falsy dflt" and "DatabaseServer_init ev h u pw p engine dflt w = Inr (s, w')"
  shows "w' = w \<and> databases s = Map.empty"
  using assms by (auto simp: DatabaseServer_init_def split: sum.splits)

lemma init_with_default:
  assumes "\<not> falsy dflt" and "DatabaseServer_init ev h u pw p engine dflt w = Inr (s, w')"
  shows "\<exists>e sm. engines_created w' = engines_created w @ [e]
           \<and> databases s = [dflt \<mapsto> (e, sm)] \<and> url_database (engine_url e) = dflt"
proof -
  from assms obtain c where c: "lookup_creator engine = Inr c"
    by (auto simp: DatabaseServer_init_def split: sum.splits)
  let ?s0 = "\<lparr>host = h, port = p, username = u, password = pw, create_engine_attr = c,
               databases = Map.empty, default_database = dflt\<rparr>"
  from assms c obtain q where g: "DatabaseServer_get_or_create ev ?s0 dflt w = Inr (q, s, w')"
    by (auto simp: DatabaseServer_init_def split: sum.splits)
  have "databases ?s0 dflt = None" by simp
  from get_or_create_miss [OF this, of ev w] g show ?thesis
    by (cases c) (auto simp: Let_def split: option.splits)
qed

lemma request_miss:
  assumes "get_session_maker ev s d w = Inr (sm, s', w')"
    and "databases s (if falsy d then default_database s else d) = None"
  shows "engines_created w' = engines_created w @ [sm_bind sm]
         \<and> databases s' = (databases s)((if falsy d then default_database s else d) \<mapsto> (sm_bind sm, sm))"
  using assms(1) get_or_create_miss [OF assms(2), of ev w]
  by (auto simp: get_session_maker_key Let_def split: option.splits)

lemma request_hit:
  assumes "get_session_maker ev s d w = Inr (sm, s', w')"
    and "databases s (if falsy d then default_database s else d) \<noteq> None"
  shows "w' = w \<and> s' = s"
proof -
  from assms(2) obtain p where "databases s (if falsy d then default_database s else d) = Some p"
    by auto
  from get_or_create_hit [OF this, of ev w] assms(1) show ?thesis
    by (cases p) (simp add: get_session_maker_key)
qed

text \<open>
  C9, amended. Constructing a registry creates no connection handle when no default
  database is configured, and exactly one, for the default database, when one is. After
  construction a request creates exactly one handle when its name (the default, if none is
  given) is not in the cache, and stores it under that name; a request for a cached name
  creates nothing and leaves registry and world as they were.
\<close>

theorem handles_created_at_construction_or_first_request:
  "(falsy dflt \<longrightarrow> DatabaseServer_init ev h u pw p engine dflt w = Inr (s, w') \<longrightarrow>
      w' = w \<and> databases s = Map.empty)
   \<and> (\<not> falsy dflt \<longrightarrow> DatabaseServer_init ev h u pw p engine dflt w = Inr (s, w') \<longrightarrow>
      (\<exists>e sm. engines_created w' = engines_created w @ [e]
           \<and> databases s = [dflt \<mapsto> (e, sm)] \<and> url_database (engine_url e) = dflt))
   \<and> (get_session_maker ev s1 d w1 = Inr (sm1, s2, w2) \<longrightarrow>
        databases s1 (if falsy d then default_database s1 else d) = None \<longrightarrow>
        engines_created w2 = engines_created w1 @ [sm_bind sm1]
        \<and> databases s2 =
            (databases s1)((if falsy d then default_database s1 else d) \<mapsto> (sm_bind sm1, sm1)))
   \<and> (get_session_maker ev s1 d w1 = Inr (sm1, s2, w2) \<longrightarrow>
        databases s1 (if falsy d then default_database s1 else d) \<noteq> None \<longrightarrow>
        w2 = w1 \<and> s2 = s1)"
  using init_no_default [of dflt ev h u pw p engine w s w']
    init_with_default [of dflt ev h u pw p engine w s w']
    request_miss [of ev s1 d w1 sm1 s2 w2] request_hit [of ev s1 d w1 sm1 s2 w2]
  by blast

theorem handles_created_at_construction_or_first_request_witness:
  "falsy None
   \<and> DatabaseServer_init quiet_env ''db-c'' ''app'' ''secret'' 5432 ''postgres'' None world0
       = Inr (server_c, world0)
   \<and> databases server_c = Map.empty
   \<and> \<not> falsy (Some ''orders'')
   \<and> DatabaseServer_init quiet_env ''db-a'' ''app'' ''secret'' 5432 ''postgres''
         (Some ''orders'') world0 = Inr (server_a, world_a)
   \<and> (\<exists>e sm. engines_created world_a = engines_created world0 @ [e]
         \<and> databases server_a = [Some ''orders'' \<mapsto> (e, sm)]
         \<and> url_database (engine_url e) = Some ''orders'')
   \<and> databases server_c (if falsy None then default_database server_c else None) = None
   \<and> engines_created (world0\<lparr>engines_created := [engine_unnamed]\<rparr>)
       = engines_created world0 @ [sm_bind maker_unnamed]
   \<and> databases server_a (if falsy None then default_database server_a else None) \<noteq> None
   \<and> get_session_maker quiet_env server_a None world_a = Inr (maker_orders, server_a, world_a)"
proof -
  have c: "databases server_c (if falsy None then default_database server_c else None) = None"
    by (simp add: server_c_def)
  have a: "databases server_a (if falsy None then default_database server_a else None) \<noteq> None"
    by (simp add: server_a_def)
  have f: "falsy None" "\<not> falsy (Some ''orders'')"
    by simp_all
  show ?thesis
    using f c a server_c_constructed server_a_constructed server_c_unnamed
      get_session_maker_a(2) [of quiet_env world_a]
      handles_created_at_construction_or_first_request
        [of None quiet_env "''db-c''" "''app''" "''secret''" 5432 "''postgres''" world0
            server_c world0 server_c None world0 maker_unnamed
            "server_c\<lparr>databases := [None \<mapsto> (engine_unnamed, maker_unnamed)]\<rparr>"
            "world0\<lparr>engines_created := [engine_unnamed]\<rparr>"]
      handles_created_at_construction_or_first_request
        [of "Some ''orders''" quiet_env "''db-a''" "''app''" "''secret''" 5432 "''postgres''"
            world0 server_a world_a server_a None world_a maker_orders server_a world_a]
    by blast
qed

lemma create_class:
  assumes "DatabaseServer_create ev s d w = Inr ((e, sm), s', w')"
  shows "sm_class sm = (if create_engine_attr s = CreateAsyncPostgres then AsyncEngineC else SessionC)
         \<and> sm_bind sm = e \<and> databases s' d = Some (e, sm)"
  using assms
  by (cases "create_engine_attr s")
     (auto simp: DatabaseServer_create_def call_create_engine_def Let_def split: option.splits)

lemma instantiate_class:
  "instantiate ev sm w = (Inr x, w') \<Longrightarrow> session_class x = sm_class sm \<and> session_bind x = sm_bind sm"
  by (auto simp: instantiate_def Let_def split: option.splits)

lemma open_all_classes:
  "open_all ev sms w = (Inr ss, w') \<Longrightarrow> map session_class ss = map sm_class sms"
proof (induction sms arbitrary: w ss)
  case Nil
  then show ?case by simp
next
  case (Cons sm sms)
  from Cons.prems obtain x w1 where i: "instantiate ev sm w = (Inr x, w1)"
    by (cases "instantiate ev sm w") (auto split: sum.splits)
  from Cons.prems i obtain xs where r: "open_all ev sms w1 = (Inr xs, w')" and ss: "ss = x # xs"
    by (cases "open_all ev sms w1") (auto split: sum.splits)
  show ?case
    using instantiate_class [OF i] Cons.IH [OF r] ss by simp
qed

lemma aenter_sessions:
  "aenter ev ctx w = (Inr r, ctx', w')
     \<Longrightarrow> \<exists>ss. open_all ev (session_makers ctx) w = (Inr ss, w') \<and> sessions ctx' = Some ss
            \<and> session_makers ctx' = session_makers ctx"
  by (cases "open_all ev (session_makers ctx) w") (auto simp: aenter_def split: sum.splits)

lemma create_events:
  "DatabaseServer_create quiet_env (server_b\<lparr>databases := Map.empty\<rparr>) (Some ''events'') world_a
     = Inr ((engine_events, maker_events), server_b, world_ab)"
  by (simp add: server_defs quiet_env_def world_a_def world_ab_def server_b_def
                engine_events_def maker_events_def)

lemma aenter_events:
  "aenter quiet_env \<lparr>session_makers = [maker_events], sessions = None\<rparr> world_ab
     = (Inr (One session_events),
        \<lparr>session_makers = [maker_events], sessions = Some [session_events]\<rparr>,
        world_ab\<lparr>opened := [session_events]\<rparr>)"
  by (simp add: aenter_def instantiate_def quiet_env_def world_ab_def session_events_def
                maker_events_def Let_def)

text \<open>
  C10. The factory \<open>_create\<close> builds and caches has session class \<open>AsyncEngine\<close>
  exactly when the registry's creation routine is the asynchronous Postgres one, and
  \<open>Session\<close> otherwise; it is never \<open>AsyncSession\<close>. Every object \<open>__aenter__\<close>
  instantiates has the class of the factory it came from.
\<close>

theorem async_factory_class_is_engine:
  "(DatabaseServer_create ev s d w = Inr ((e, sm), s', w') \<longrightarrow>
      sm_class sm = (if create_engine_attr s = CreateAsyncPostgres then AsyncEngineC else SessionC)
      \<and> sm_class sm \<noteq> AsyncSessionC
      \<and> databases s' d = Some (e, sm))
   \<and> (aenter ev ctx w1 = (Inr r, ctx', w2) \<longrightarrow>
      (\<exists>ss. sessions ctx' = Some ss \<and> map session_class ss = map sm_class (session_makers ctx)))"
proof (intro conjI impI)
  assume a: "DatabaseServer_create ev s d w = Inr ((e, sm), s', w')"
  show "sm_class sm = (if create_engine_attr s = CreateAsyncPostgres then AsyncEngineC else SessionC)"
    using create_class [OF a] by simp
  show "sm_class sm \<noteq> AsyncSessionC"
    using create_class [OF a] by (simp split: if_splits)
  show "databases s' d = Some (e, sm)"
    using create_class [OF a] by simp
next
  assume "aenter ev ctx w1 = (Inr r, ctx', w2)"
  from aenter_sessions [OF this] obtain ss where
    "open_all ev (session_makers ctx) w1 = (Inr ss, w2)" and "sessions ctx' = Some ss"
    by blast
  then show "\<exists>ss. sessions ctx' = Some ss \<and> map session_class ss = map sm_class (session_makers ctx)"
    using open_all_classes by blast
qed

theorem async_factory_class_is_engine_witness:
  "DatabaseServer_create quiet_env (server_b\<lparr>databases := Map.empty\<rparr>) (Some ''events'') world_a
     = Inr ((engine_events, maker_events), server_b, world_ab)
   \<and> create_engine_attr (server_b\<lparr>databases := Map.empty\<rparr>) = CreateAsyncPostgres
   \<and> sm_class maker_events = AsyncEngineC
   \<and> aenter quiet_env \<lparr>session_makers = [maker_events], sessions = None\<rparr> world_ab
     = (Inr (One session_events),
        \<lparr>session_makers = [maker_events], sessions = Some [session_events]\<rparr>,
        world_ab\<lparr>opened := [session_events]\<rparr>)
   \<and> map session_class [session_events] = [AsyncEngineC]"
  using create_events aenter_events
    async_factory_class_is_engine
      [of quiet_env "server_b\<lparr>databases := Map.empty\<rparr>" "Some ''events''" world_a
          engine_events maker_events server_b world_ab
          "\<lparr>session_makers = [maker_events], sessions = None\<rparr>" world_ab
          "One session_events"
          "\<lparr>session_makers = [maker_events], sessions = Some [session_events]\<rparr>"
          "world_ab\<lparr>opened := [session_events]\<rparr>"]
  by (simp add: server_b_def)

section \<open>Claims about the session scope\<close>

lemma DatabaseContext_init_three:
  "DatabaseContext_init quiet_env manager_ab
     (UseIter [Tuple [Some ''db-a'', Some ''orders''], Tuple [Some ''db-a''], RefNone]) world_ab
   = Inr (ctx_three, manager_ab, world_ab)"
  by (simp add: DatabaseContext_init_def manager_ab_resolve ctx_three_def)


lemma aenter_three_quiet:
  "aenter quiet_env ctx_three world_ab
   = (Inr (Many [session_0, session_1, session_2]),
      ctx_three\<lparr>sessions := Some [session_0, session_1, session_2]\<rparr>,
      world_ab\<lparr>opened := [session_0, session_1, session_2]\<rparr>)"
  by (simp add: aenter_def instantiate_def quiet_env_def world_ab_def ctx_three_def
                session_0_def session_1_def session_2_def maker_orders_def Let_def)

lemma aenter_three_fails:
  "aenter env_open_fails ctx_three world_ab
   = (Inl (ExternalError 7), ctx_three, world_ab\<lparr>opened := [session_0]\<rparr>)"
  by (simp add: aenter_def instantiate_def env_open_fails_def quiet_env_def world_ab_def
                ctx_three_def session_0_def maker_orders_def Let_def)


lemma release_of_sync: "release_of s = SyncToAsyncClose"
  by (simp add: release_of_def)

lemma aexit_three_fails:
  "aexit env_close_fails (ctx_three\<lparr>sessions := Some [session_0, session_1, session_2]\<rparr>)
     (world_ab\<lparr>opened := [session_0, session_1, session_2]\<rparr>)
   = (Some (ExternalError 9),
      world_ab\<lparr>opened := [session_0, session_1, session_2],
               close_log := [(session_0, SyncToAsyncClose, None),
                             (session_1, SyncToAsyncClose, Some (ExternalError 9))]\<rparr>)"
  by (simp add: aexit_def release_of_sync env_close_fails_def quiet_env_def world_ab_def
                session_0_def session_1_def session_2_def Let_def)


lemma token_resolves_default:
  "DatabaseContext_init quiet_env manager_ab (UseIter [Token ''db-b'']) world_ab
   = Inr (\<lparr>session_makers = [maker_orders], sessions = None\<rparr>, manager_ab, world_ab)"
  by (simp add: DatabaseContext_init_def manager_ab_resolve)

lemma tuple_resolves_named:
  "DatabaseContext_init quiet_env manager_ab (UseIter [Tuple [Some ''db-b'']]) world_ab
   = Inr (\<lparr>session_makers = [maker_events], sessions = None\<rparr>, manager_ab, world_ab)"
  by (simp add: DatabaseContext_init_def manager_ab_resolve)

lemma instantiate_Inl:
  "instantiate ev sm w = (Inl x, w') \<Longrightarrow> w' = w \<and> open_raises ev (length (opened w)) sm = Some x"
  by (auto simp: instantiate_def Let_def split: option.splits)

lemma instantiate_Inr:
  "instantiate ev sm w = (Inr s, w') \<Longrightarrow>
     w' = w\<lparr>opened := opened w @ [s]\<rparr> \<and> open_raises ev (length (opened w)) sm = None"
  by (auto simp: instantiate_def Let_def split: option.splits)

lemma open_all_Inl:
  "open_all ev sms w = (Inl x, w') \<Longrightarrow>
     close_log w' = close_log w \<and> engines_created w' = engines_created w
     \<and> (\<exists>k<length sms.
           open_raises ev (length (opened w) + k) (sms ! k) = Some x
           \<and> (\<forall>j<k. open_raises ev (length (opened w) + j) (sms ! j) = None)
           \<and> length (opened w') = length (opened w) + k
           \<and> take (length (opened w)) (opened w') = opened w)"
proof (induction sms arbitrary: w)
  case Nil
  then show ?case by simp
next
  case (Cons sm sms)
  show ?case
  proof (cases "instantiate ev sm w")
    case (Pair r w1)
    show ?thesis
    proof (cases r)
      case (Inl y)
      with Pair Cons.prems have "y = x" "w' = w1" by simp_all
      with Pair Inl instantiate_Inl [of ev sm w x w1]
      have "w' = w" "open_raises ev (length (opened w)) sm = Some x" by simp_all
      then show ?thesis by auto
    next
      case (Inr s)
      with Pair instantiate_Inr [of ev sm w s w1]
      have w1: "w1 = w\<lparr>opened := opened w @ [s]\<rparr>"
        and ok: "open_raises ev (length (opened w)) sm = None" by simp_all
      from Cons.prems Pair Inr have rest: "open_all ev sms w1 = (Inl x, w')"
        by (cases "open_all ev sms w1") (auto split: sum.splits)
      from Cons.IH [OF rest] obtain k where
        c: "close_log w' = close_log w1" "engines_created w' = engines_created w1"
        and k: "k < length sms"
          "open_raises ev (length (opened w1) + k) (sms ! k) = Some x"
          "\<forall>j<k. open_raises ev (length (opened w1) + j) (sms ! j) = None"
          "length (opened w') = length (opened w1) + k"
          "take (length (opened w1)) (opened w') = opened w1"
        by blast
      have t: "take (length (opened w)) (opened w') = opened w"
      proof -
        have "take (length (opened w)) (take (length (opened w1)) (opened w')) = opened w"
          using k(5) by (simp add: w1)
        then show ?thesis by (simp add: w1 min_def)
      qed
      have prev: "\<forall>j<Suc k. open_raises ev (length (opened w) + j) ((sm # sms) ! j) = None"
      proof (intro allI impI)
        fix j assume "j < Suc k"
        show "open_raises ev (length (opened w) + j) ((sm # sms) ! j) = None"
        proof (cases j)
          case 0
          then show ?thesis using ok by simp
        next
          case (Suc i)
          with \<open>j < Suc k\<close> k(3) show ?thesis by (simp add: w1)
        qed
      qed
      have "Suc k < length (sm # sms)" using k(1) by simp
      moreover have "open_raises ev (length (opened w) + Suc k) ((sm # sms) ! Suc k) = Some x"
        using k(2) by (simp add: w1)
      moreover have "length (opened w') = length (opened w) + Suc k"
        using k(4) by (simp add: w1)
      ultimately show ?thesis
        using c t prev by (intro conjI exI [of _ "Suc k"]) (simp_all add: w1)
    qed
  qed
qed

lemma aenter_Inl:
  "aenter ev ctx w = (Inl x, ctx', w') \<Longrightarrow>
     ctx' = ctx \<and> open_all ev (session_makers ctx) w = (Inl x, w')"
  by (cases "open_all ev (session_makers ctx) w") (auto simp: aenter_def split: sum.splits)

lemma aexit_unset: "sessions ctx = None \<Longrightarrow> aexit ev ctx w = (None, w)"
  by (simp add: aexit_def)

text \<open>
  C1 as stated fails: in a scope over three references whose second instantiation raises,
  the error propagates with the first session opened and never closed; \<open>self.sessions\<close>
  is still \<open>None\<close>, so \<open>__aexit__\<close>, were it called, closes nothing either.
\<close>

theorem partial_open_counterexample:
  "DatabaseContext_init quiet_env manager_ab
     (UseIter [Tuple [Some ''db-a'', Some ''orders''], Tuple [Some ''db-a''], RefNone]) world_ab
   = Inr (ctx_three, manager_ab, world_ab)
   \<and> aenter env_open_fails ctx_three world_ab
     = (Inl (ExternalError 7), ctx_three, world_ab\<lparr>opened := [session_0]\<rparr>)
   \<and> opened (world_ab\<lparr>opened := [session_0]\<rparr>) = [session_0]
   \<and> close_log (world_ab\<lparr>opened := [session_0]\<rparr>) = []
   \<and> aexit env_open_fails ctx_three (world_ab\<lparr>opened := [session_0]\<rparr>)
     = (None, world_ab\<lparr>opened := [session_0]\<rparr>)"
  using DatabaseContext_init_three aenter_three_fails
  by (simp add: aexit_def ctx_three_def world_ab_def)

text \<open>
  C1, amended. When the instantiation for target \<open>k\<close> is the first to raise,
  \<open>__aenter__\<close> propagates that error at once: the sessions of the \<open>k\<close> targets before
  it have been opened, no session is closed, no later target is instantiated, and the
  scope is unchanged, so that with \<open>self.sessions\<close> unset \<open>__aexit__\<close> closes nothing.
\<close>

theorem failed_open_closes_nothing:
  assumes "aenter ev ctx w = (Inl x, ctx', w')"
  shows "ctx' = ctx
         \<and> close_log w' = close_log w
         \<and> (\<exists>k<length (session_makers ctx).
               open_raises ev (length (opened w) + k) (session_makers ctx ! k) = Some x
               \<and> (\<forall>j<k. open_raises ev (length (opened w) + j) (session_makers ctx ! j) = None)
               \<and> length (opened w') = length (opened w) + k
               \<and> take (length (opened w)) (opened w') = opened w)
         \<and> (sessions ctx = None \<longrightarrow> aexit ev ctx' w' = (None, w'))"
proof -
  from aenter_Inl [OF assms] have c: "ctx' = ctx"
    and o: "open_all ev (session_makers ctx) w = (Inl x, w')" by simp_all
  from open_all_Inl [OF o] c show ?thesis
    by (simp add: aexit_unset)
qed

theorem failed_open_closes_nothing_witness:
  "aenter env_open_fails ctx_three world_ab
     = (Inl (ExternalError 7), ctx_three, world_ab\<lparr>opened := [session_0]\<rparr>)
   \<and> close_log (world_ab\<lparr>opened := [session_0]\<rparr>) = close_log world_ab
   \<and> (\<exists>k<length (session_makers ctx_three).
         open_raises env_open_fails (length (opened world_ab) + k) (session_makers ctx_three ! k)
           = Some (ExternalError 7)
         \<and> length (opened (world_ab\<lparr>opened := [session_0]\<rparr>)) = length (opened world_ab) + k)
   \<and> sessions ctx_three = None
   \<and> aexit env_open_fails ctx_three (world_ab\<lparr>opened := [session_0]\<rparr>)
     = (None, world_ab\<lparr>opened := [session_0]\<rparr>)"
proof -
  have n: "sessions ctx_three = None" by (simp add: ctx_three_def)
  show ?thesis
    using n aenter_three_fails
      failed_open_closes_nothing [OF aenter_three_fails]
    by blast
qed

lemma close_all_Some:
  "close_all ev ss w = (Some x, w') \<Longrightarrow>
     \<exists>k<length ss.
        close_raises ev (release_of (ss ! k)) (ss ! k) = Some x
        \<and> (\<forall>j<k. close_raises ev (release_of (ss ! j)) (ss ! j) = None)
        \<and> close_log w' = close_log w
            @ map (\<lambda>s. (s, release_of s, close_raises ev (release_of s) s)) (take (Suc k) ss)"
proof (induction ss arbitrary: w)
  case Nil
  then show ?case by simp
next
  case (Cons s ss)
  let ?w1 = "w\<lparr>close_log := close_log w @ [(s, release_of s, close_raises ev (release_of s) s)]\<rparr>"
  show ?case
  proof (cases "close_raises ev (release_of s) s")
    case (Some y)
    with Cons.prems have "y = x" "w' = ?w1" by (auto simp: Let_def)
    with Some show ?thesis by (intro exI [of _ 0]) simp
  next
    case None
    with Cons.prems have "close_all ev ss ?w1 = (Some x, w')" by (simp add: Let_def)
    from Cons.IH [OF this] obtain k where k: "k < length ss"
      "close_raises ev (release_of (ss ! k)) (ss ! k) = Some x"
      "\<forall>j<k. close_raises ev (release_of (ss ! j)) (ss ! j) = None"
      "close_log w' = close_log ?w1
            @ map (\<lambda>s. (s, release_of s, close_raises ev (release_of s) s)) (take (Suc k) ss)"
      by blast
    have prev: "\<forall>j<Suc k. close_raises ev (release_of ((s # ss) ! j)) ((s # ss) ! j) = None"
    proof (intro allI impI)
      fix j assume "j < Suc k"
      then show "close_raises ev (release_of ((s # ss) ! j)) ((s # ss) ! j) = None"
        using None k(3) by (cases j) simp_all
    qed
    show ?thesis
      using k(1,2,4) prev None by (intro exI [of _ "Suc k"]) simp
  qed
qed

lemma close_all_None:
  "close_all ev ss w = (None, w') \<Longrightarrow>
     close_log w' = close_log w @ map (\<lambda>s. (s, release_of s, None)) ss"
proof (induction ss arbitrary: w)
  case Nil
  then show ?case by simp
next
  case (Cons s ss)
  let ?w1 = "w\<lparr>close_log := close_log w @ [(s, release_of s, close_raises ev (release_of s) s)]\<rparr>"
  from Cons.prems have n: "close_raises ev (release_of s) s = None"
    by (cases "close_raises ev (release_of s) s") (simp_all add: Let_def)
  with Cons.prems have "close_all ev ss ?w1 = (None, w')" by (simp add: Let_def)
  from Cons.IH [OF this] n show ?case by simp
qed

lemma aexit_close_all:
  "sessions ctx = Some ss \<Longrightarrow> aexit ev ctx w = close_all ev ss w"
  by (cases ss) (simp_all add: aexit_def)

lemma aexit_three_quiet:
  "aexit quiet_env (ctx_three\<lparr>sessions := Some [session_0, session_1, session_2]\<rparr>)
     (world_ab\<lparr>opened := [session_0, session_1, session_2]\<rparr>)
   = (None,
      world_ab\<lparr>opened := [session_0, session_1, session_2],
               close_log := [(session_0, SyncToAsyncClose, None),
                             (session_1, SyncToAsyncClose, None),
                             (session_2, SyncToAsyncClose, None)]\<rparr>)"
  by (simp add: aexit_def release_of_sync quiet_env_def world_ab_def Let_def)

text \<open>
  C2 as stated fails: when the close of the second of three sessions raises, the third
  session is never released, and what propagates is the second session's own error,
  not an aggregate.
\<close>

theorem close_failure_counterexample:
  "aenter quiet_env ctx_three world_ab
   = (Inr (Many [session_0, session_1, session_2]),
      ctx_three\<lparr>sessions := Some [session_0, session_1, session_2]\<rparr>,
      world_ab\<lparr>opened := [session_0, session_1, session_2]\<rparr>)
   \<and> close_raises env_close_fails SyncToAsyncClose session_1 = Some (ExternalError 9)
   \<and> aexit env_close_fails (ctx_three\<lparr>sessions := Some [session_0, session_1, session_2]\<rparr>)
       (world_ab\<lparr>opened := [session_0, session_1, session_2]\<rparr>)
     = (Some (ExternalError 9),
        world_ab\<lparr>opened := [session_0, session_1, session_2],
                 close_log := [(session_0, SyncToAsyncClose, None),
                               (session_1, SyncToAsyncClose, Some (ExternalError 9))]\<rparr>)
   \<and> session_2 \<noteq> session_0 \<and> session_2 \<noteq> session_1
   \<and> ExternalError 9 \<noteq> CloseError [ExternalError 9]"
  using aenter_three_quiet aexit_three_fails
  by (simp add: env_close_fails_def session_0_def session_1_def session_2_def)

text \<open>
  C2, amended. \<open>__aexit__\<close> releases the sessions in the order they were opened and
  stops at the first release that raises: the sessions before it have been released, the
  sessions after it are not attempted, and the error of the failing release propagates
  as it is. When no release raises, every session is released exactly once, in order.
\<close>

theorem close_failure_stops_exit:
  assumes "sessions ctx = Some ss"
  shows "(aexit ev ctx w = (Some x, w') \<longrightarrow>
           (\<exists>k<length ss.
              close_raises ev (release_of (ss ! k)) (ss ! k) = Some x
              \<and> (\<forall>j<k. close_raises ev (release_of (ss ! j)) (ss ! j) = None)
              \<and> close_log w' = close_log w
                  @ map (\<lambda>s. (s, release_of s, close_raises ev (release_of s) s))
                        (take (Suc k) ss)))
         \<and> (aexit ev ctx w = (None, w') \<longrightarrow>
              close_log w' = close_log w @ map (\<lambda>s. (s, release_of s, None)) ss)"
  using close_all_Some [of ev ss w x w'] close_all_None [of ev ss w w']
  by (simp add: aexit_close_all [OF assms])

theorem close_failure_stops_exit_witness:
  "sessions (ctx_three\<lparr>sessions := Some [session_0, session_1, session_2]\<rparr>)
     = Some [session_0, session_1, session_2]
   \<and> aexit env_close_fails (ctx_three\<lparr>sessions := Some [session_0, session_1, session_2]\<rparr>)
       (world_ab\<lparr>opened := [session_0, session_1, session_2]\<rparr>)
     = (Some (ExternalError 9),
        world_ab\<lparr>opened := [session_0, session_1, session_2],
                 close_log := [(session_0, SyncToAsyncClose, None),
                               (session_1, SyncToAsyncClose, Some (ExternalError 9))]\<rparr>)
   \<and> (\<exists>k<length [session_0, session_1, session_2].
         close_raises env_close_fails (release_of ([session_0, session_1, session_2] ! k))
           ([session_0, session_1, session_2] ! k) = Some (ExternalError 9))
   \<and> aexit quiet_env (ctx_three\<lparr>sessions := Some [session_0, session_1, session_2]\<rparr>)
       (world_ab\<lparr>opened := [session_0, session_1, session_2]\<rparr>)
     = (None,
        world_ab\<lparr>opened := [session_0, session_1, session_2],
                 close_log := [(session_0, SyncToAsyncClose, None),
                               (session_1, SyncToAsyncClose, None),
                               (session_2, SyncToAsyncClose, None)]\<rparr>)
   \<and> close_log (world_ab\<lparr>opened := [session_0, session_1, session_2],
                 close_log := [(session_0, SyncToAsyncClose, None),
                               (session_1, SyncToAsyncClose, None),
                               (session_2, SyncToAsyncClose, None)]\<rparr>)
     = close_log (world_ab\<lparr>opened := [session_0, session_1, session_2]\<rparr>)
       @ map (\<lambda>s. (s, release_of s, None)) [session_0, session_1, session_2]"
proof -
  have s: "sessions (ctx_three\<lparr>sessions := Some [session_0, session_1, session_2]\<rparr>)
     = Some [session_0, session_1, session_2]" by simp
  show ?thesis
    using s aexit_three_fails aexit_three_quiet
      close_failure_stops_exit [OF s, of env_close_fails
        "world_ab\<lparr>opened := [session_0, session_1, session_2]\<rparr>" "ExternalError 9"
        "world_ab\<lparr>opened := [session_0, session_1, session_2],
                 close_log := [(session_0, SyncToAsyncClose, None),
                               (session_1, SyncToAsyncClose, Some (ExternalError 9))]\<rparr>"]
      close_failure_stops_exit [OF s, of quiet_env
        "world_ab\<lparr>opened := [session_0, session_1, session_2]\<rparr>" "ExternalError 9"
        "world_ab\<lparr>opened := [session_0, session_1, session_2],
                 close_log := [(session_0, SyncToAsyncClose, None),
                               (session_1, SyncToAsyncClose, None),
                               (session_2, SyncToAsyncClose, None)]\<rparr>"]
    by blast
qed


text \<open>
  C5, the code at the reference \<open>"db-b"\<close> in a manager whose default server is \<open>db-a\<close>:
  a reference that is not a tuple leaves \<open>host\<close> at \<open>None\<close>, so the factory is that of
  \<open>db-a\<close> and its default database. The one-element tuple \<open>("db-b",)\<close> does resolve
  to \<open>db-b\<close> with its default database.
\<close>

theorem bare_token_resolves_to_default_server:
  "default_server manager_ab = Some ''db-a''
   \<and> database_servers manager_ab ''db-b'' = Some server_b
   \<and> DatabaseContext_init quiet_env manager_ab (UseIter [Token ''db-b'']) world_ab
     = Inr (\<lparr>session_makers = [maker_orders], sessions = None\<rparr>, manager_ab, world_ab)
   \<and> url_host (engine_url (sm_bind maker_orders)) = ''db-a''
   \<and> url_database (engine_url (sm_bind maker_orders)) = Some ''orders''
   \<and> DatabaseContext_init quiet_env manager_ab (UseIter [Tuple [Some ''db-b'']]) world_ab
     = Inr (\<lparr>session_makers = [maker_events], sessions = None\<rparr>, manager_ab, world_ab)
   \<and> url_host (engine_url (sm_bind maker_events)) = ''db-b''
   \<and> url_database (engine_url (sm_bind maker_events)) = default_database server_b"
  using token_resolves_default tuple_resolves_named manager_ab_fields
  by (simp add: maker_orders_def maker_events_def engine_orders_def engine_events_def server_b_def)

lemma get_key_default:
  "default_server m = Some h \<Longrightarrow> get_key m None = Inr h \<and> get_key m (Some h) = Inr h"
  by (simp add: get_key_def default_key_def)

lemma manager_session_maker_at:
  assumes "get_key m k = Inr h" and "database_servers m h = Some s"
  shows "manager_session_maker ev m k d w =
           (case get_session_maker ev s d w of
              Inl x \<Rightarrow> Inl x
            | Inr (sm, s', w') \<Rightarrow>
                Inr (sm, m\<lparr>database_servers := (database_servers m)(h \<mapsto> s')\<rparr>, w'))"
  using assms by (simp add: manager_session_maker_def get_def)

lemma get_session_maker_default:
  "get_session_maker ev s (default_database s) w = get_session_maker ev s None w"
  by (simp add: get_session_maker_key)

lemma default_reference_same:
  assumes "default_server m = Some h" and "database_servers m h = Some s"
  shows "manager_session_maker ev m (Some h) (default_database s) w
           = manager_session_maker ev m None None w"
  using get_key_default [OF assms(1)] assms(2)
  by (simp add: manager_session_maker_at get_session_maker_default)

lemma get_session_maker_stored:
  assumes "get_session_maker ev s None w = Inr (sm, s', w')"
  shows "\<exists>e. databases s' (default_database s) = Some (e, sm)"
proof -
  from assms obtain e where
    "DatabaseServer_get_or_create ev s (default_database s) w = Inr ((e, sm), s', w')"
    by (auto simp: get_session_maker_key split: sum.splits)
  from get_or_create_stores [OF this] show ?thesis by blast
qed

lemma aenter_single:
  assumes "session_makers ctx = [sm]" and "aenter ev ctx w = (Inr r, ctx2, w2)"
  shows "\<exists>x. r = One x \<and> sessions ctx2 = Some [x] \<and> session_bind x = sm_bind sm"
  using assms
  by (auto simp: aenter_def instantiate_def Let_def split: option.splits)

text \<open>
  C6. In a manager whose default server is registered, constructing a scope with
  \<open>None\<close> or with an empty list does what constructing it with the single reference
  (default host, default database of that server) does: same result, same registry cache,
  same world. On success the scope holds exactly one factory, the one cached in the
  default server's registry under its default database, and entering the scope yields
  exactly one session, bound to that factory's engine and returned bare.
\<close>

theorem empty_use_is_default_reference:
  assumes "default_server m = Some h" and "database_servers m h = Some s"
  shows "DatabaseContext_init ev m UseNone w
           = DatabaseContext_init ev m (UseIter [Tuple [Some h, default_database s]]) w
         \<and> DatabaseContext_init ev m (UseIter []) w = DatabaseContext_init ev m UseNone w
         \<and> (DatabaseContext_init ev m UseNone w = Inr (ctx, m', w') \<longrightarrow>
              (\<exists>sm e s'. session_makers ctx = [sm] \<and> sessions ctx = None
                 \<and> database_servers m' h = Some s'
                 \<and> databases s' (default_database s) = Some (e, sm)))
         \<and> (DatabaseContext_init ev m UseNone w = Inr (ctx, m', w') \<longrightarrow>
              aenter ev2 ctx w1 = (Inr r, ctx2, w2) \<longrightarrow>
              (\<exists>x. r = One x \<and> sessions ctx2 = Some [x]
                 \<and> map session_bind [x] = map sm_bind (session_makers ctx)))"
proof (intro conjI impI)
  show "DatabaseContext_init ev m UseNone w
           = DatabaseContext_init ev m (UseIter [Tuple [Some h, default_database s]]) w"
    by (cases "manager_session_maker ev m None None w")
       (auto simp: DatabaseContext_init_def default_reference_same [OF assms])
  show "DatabaseContext_init ev m (UseIter []) w = DatabaseContext_init ev m UseNone w"
    by (simp add: DatabaseContext_init_def)
next
  assume a: "DatabaseContext_init ev m UseNone w = Inr (ctx, m', w')"
  then obtain sm where r: "manager_session_maker ev m None None w = Inr (sm, m', w')"
    and c: "ctx = \<lparr>session_makers = [sm], sessions = None\<rparr>"
    by (auto simp: DatabaseContext_init_def split: sum.splits)
  from get_key_default [OF assms(1)] have k: "get_key m None = Inr h" by simp
  from r obtain s' where g: "get_session_maker ev s None w = Inr (sm, s', w')"
    and m': "m' = m\<lparr>database_servers := (database_servers m)(h \<mapsto> s')\<rparr>"
    by (auto simp: manager_session_maker_at [OF k assms(2)] split: sum.splits)
  from get_session_maker_stored [OF g] obtain e where
    "databases s' (default_database s) = Some (e, sm)" by blast
  then show "\<exists>sm e s'. session_makers ctx = [sm] \<and> sessions ctx = None
                 \<and> database_servers m' h = Some s'
                 \<and> databases s' (default_database s) = Some (e, sm)"
    using c m' by simp
next
  assume a: "DatabaseContext_init ev m UseNone w = Inr (ctx, m', w')"
    and b: "aenter ev2 ctx w1 = (Inr r, ctx2, w2)"
  from a obtain sm where c: "session_makers ctx = [sm]"
    by (auto simp: DatabaseContext_init_def split: sum.splits)
  from aenter_single [OF c b] c
  show "\<exists>x. r = One x \<and> sessions ctx2 = Some [x]
                 \<and> map session_bind [x] = map sm_bind (session_makers ctx)"
    by auto
qed

lemma aenter_default_ab:
  "aenter quiet_env \<lparr>session_makers = [maker_orders], sessions = None\<rparr> world_ab
     = (Inr (One session_0),
        \<lparr>session_makers = [maker_orders], sessions = Some [session_0]\<rparr>,
        world_ab\<lparr>opened := [session_0]\<rparr>)"
  by (simp add: aenter_def instantiate_def quiet_env_def world_ab_def session_0_def
                maker_orders_def Let_def)

lemma init_default_ab:
  "DatabaseContext_init quiet_env manager_ab UseNone world_ab
     = Inr (\<lparr>session_makers = [maker_orders], sessions = None\<rparr>, manager_ab, world_ab)"
  by (simp add: DatabaseContext_init_def manager_ab_resolve)

theorem empty_use_is_default_reference_witness:
  "default_server manager_ab = Some ''db-a''
   \<and> database_servers manager_ab ''db-a'' = Some server_a
   \<and> DatabaseContext_init quiet_env manager_ab UseNone world_ab
     = Inr (\<lparr>session_makers = [maker_orders], sessions = None\<rparr>, manager_ab, world_ab)
   \<and> DatabaseContext_init quiet_env manager_ab
       (UseIter [Tuple [Some ''db-a'', default_database server_a]]) world_ab
     = Inr (\<lparr>session_makers = [maker_orders], sessions = None\<rparr>, manager_ab, world_ab)
   \<and> DatabaseContext_init quiet_env manager_ab (UseIter []) world_ab
     = Inr (\<lparr>session_makers = [maker_orders], sessions = None\<rparr>, manager_ab, world_ab)
   \<and> (\<exists>e. databases server_a (default_database server_a) = Some (e, maker_orders))
   \<and> aenter quiet_env \<lparr>session_makers = [maker_orders], sessions = None\<rparr> world_ab
     = (Inr (One session_0),
        \<lparr>session_makers = [maker_orders], sessions = Some [session_0]\<rparr>,
        world_ab\<lparr>opened := [session_0]\<rparr>)
   \<and> session_bind session_0 = sm_bind maker_orders"
proof -
  have d: "default_server manager_ab = Some ''db-a''"
    and s: "database_servers manager_ab ''db-a'' = Some server_a"
    by (simp_all add: manager_ab_fields)
  have e: "\<exists>e. databases server_a (default_database server_a) = Some (e, maker_orders)"
    by (simp add: server_a_def)
  show ?thesis
    using d s e init_default_ab aenter_default_ab
      empty_use_is_default_reference [OF d s, of quiet_env world_ab
        "\<lparr>session_makers = [maker_orders], sessions = None\<rparr>" manager_ab world_ab
        quiet_env world_ab "One session_0"
        "\<lparr>session_makers = [maker_orders], sessions = Some [session_0]\<rparr>"
        "world_ab\<lparr>opened := [session_0]\<rparr>"]
    by simp
qed

end
